theory Spec2Isabelle
  imports Main
begin

section \<open>The training log of \<^verbatim>\<open>server.ts\<close>\<close>

text \<open>
  The server keeps one table, \<^verbatim>\<open>trained_days\<close>, and three pieces of code touch it:
  the helper \<^verbatim>\<open>getNextWorkoutDay\<close>, the handler of \<^verbatim>\<open>GET /api/status\<close> and the
  handler of \<^verbatim>\<open>POST /api/complete\<close>. Each is embedded below as a function on the
  contents of the table.
\<close>

subsection \<open>Calendar dates\<close>

text \<open>
  The column \<^verbatim>\<open>date\<close> holds texts of the form \<^verbatim>\<open>YYYY-MM-DD\<close>: every value the
  server writes is a prefix of \<^verbatim>\<open>Date.prototype.toISOString\<close>. A date is represented
  by the number of days from 1970-01-01 to it, which is \<^verbatim>\<open>Date.parse(text) / 86400000\<close>.
  On such texts, with years of four digits, the order of SQLite (\<^verbatim>\<open>ORDER BY date\<close>), the
  order of JavaScript strings (\<^verbatim>\<open>lastEntry.date < today\<close>) and the order of JavaScript
  dates (\<^verbatim>\<open>currentDate < todayDate\<close>) all agree with the order of day numbers.
  The handler advances \<^verbatim>\<open>currentDate\<close> with the local-time methods \<^verbatim>\<open>getDate\<close> and
  \<^verbatim>\<open>setDate\<close>; the time zone of the server is taken to be UTC, where
  \<^verbatim>\<open>setDate(getDate() + 1)\<close> adds exactly one day.
\<close>

type_synonym isodate = int

text \<open>
  \<^verbatim>\<open>isoDate y m d\<close> is the day number of the text \<^verbatim>\<open>y-m-d\<close> in the proleptic Gregorian
  calendar; it is only used to write concrete dates in a readable way.
\<close>

definition isoDate :: "int \<Rightarrow> int \<Rightarrow> int \<Rightarrow> isodate" where
  "isoDate y m d =
     (let yy = (if m \<le> 2 then y - 1 else y);
          era = yy div 400;
          yoe = yy - era * 400;
          doy = (153 * ((m + 9) mod 12) + 2) div 5 + d - 1;
          doe = yoe * 365 + yoe div 4 - yoe div 100 + doy
      in era * 146097 + doe - 719468)"

subsection \<open>The table \<^verbatim>\<open>trained_days\<close>\<close>

text \<open>
  \<^verbatim>\<open>
  CREATE TABLE IF NOT EXISTS trained_days (
    date TEXT PRIMARY KEY,
    planned_day INTEGER,
    completed INTEGER DEFAULT 0,
    rescheduled INTEGER DEFAULT 0
  );
  \<close>
  The two flags only ever receive the literals 0 and 1 and are booleans here. The only
  values the handlers store in \<^verbatim>\<open>planned_day\<close> are results of \<^verbatim>\<open>getNextWorkoutDay\<close>,
  small integers; the tables of the data model are those with planned days from 1 to 5
  (\<open>planned_in_range\<close> below) and one row per date (\<open>primary_key\<close>). The table is the
  list of its rows in the order of insertion.
\<close>

record row =
  date :: isodate
  planned_day :: int
  completed :: bool
  rescheduled :: bool

type_synonym store = "row list"

datatype error = SQLITE_CONSTRAINT_PRIMARYKEY

definition dates :: "store \<Rightarrow> isodate set" where
  "dates s = set (map date s)"

text \<open>The primary key: no two rows carry the same date.\<close>

definition primary_key :: "store \<Rightarrow> bool" where
  "primary_key s = distinct (map date s)"

text \<open>
  \<^verbatim>\<open>INSERT INTO trained_days ...\<close>: the statement throws when the key is taken, and the
  exception leaves the handler.
\<close>

definition insert_row :: "row \<Rightarrow> store \<Rightarrow> error + store" where
  "insert_row r s =
     (if date r \<in> dates s then Inl SQLITE_CONSTRAINT_PRIMARYKEY else Inr (s @ [r]))"

text \<open>\<^verbatim>\<open>SELECT * FROM trained_days WHERE date = ?\<close> with \<^verbatim>\<open>.get\<close>.\<close>

definition select_by_date :: "isodate \<Rightarrow> store \<Rightarrow> row option" where
  "select_by_date d s = find (\<lambda>r. date r = d) s"

text \<open>\<^verbatim>\<open>ORDER BY date DESC LIMIT 1\<close> with \<^verbatim>\<open>.get\<close>: the first row of the sorted result, if any.\<close>

definition order_by_date_desc :: "row list \<Rightarrow> row list" where
  "order_by_date_desc rs = rev (sort_key date rs)"

definition limit_1 :: "row list \<Rightarrow> row option" where
  "limit_1 rs = (case rs of [] \<Rightarrow> None | r # _ \<Rightarrow> Some r)"

subsection \<open>\<^verbatim>\<open>getNextWorkoutDay\<close>\<close>

text \<open>
  The operator \<^verbatim>\<open>%\<close> of JavaScript on integers: the remainder of the division that
  truncates towards zero, so the result has the sign of the dividend.
\<close>

definition js_rem :: "int \<Rightarrow> int \<Rightarrow> int" where
  "js_rem a b = sgn a * (\<bar>a\<bar> mod \<bar>b\<bar>)"

text \<open>
  \<^verbatim>\<open>
  const getNextWorkoutDay = () => {
    const lastTrained = db.prepare("SELECT planned_day FROM trained_days
        WHERE completed = 1 ORDER BY date DESC LIMIT 1").get() as any;
    if (!lastTrained) return 1;
    return (lastTrained.planned_day % 5) + 1;
  };
  \<close>
\<close>

definition getNextWorkoutDay :: "store \<Rightarrow> int" where
  "getNextWorkoutDay s =
     (case limit_1 (order_by_date_desc (filter completed s)) of
        None \<Rightarrow> 1
      | Some lastTrained \<Rightarrow> js_rem (planned_day lastTrained) 5 + 1)"

subsection \<open>\<^verbatim>\<open>GET /api/status\<close>\<close>

text \<open>
  The loop of the handler, entered with \<^verbatim>\<open>currentDate\<close> one day after the last entry:
  \<^verbatim>\<open>
  while (currentDate < todayDate) {
    const dateStr = currentDate.toISOString().split('T')[0];
    const existing = db.prepare("SELECT * FROM trained_days WHERE date = ?").get(dateStr);
    if (!existing) {
      db.prepare("INSERT INTO trained_days (date, planned_day, completed, rescheduled)
                  VALUES (?, ?, 0, 1)").run(dateStr, getNextWorkoutDay());
    }
    currentDate.setDate(currentDate.getDate() + 1);
  }
  \<close>
\<close>

function fill_loop :: "isodate \<Rightarrow> isodate \<Rightarrow> store \<Rightarrow> error + store" where
  "fill_loop currentDate todayDate s =
     (if currentDate < todayDate then
        (case (case select_by_date currentDate s of
                 None \<Rightarrow>
                   insert_row \<lparr>date = currentDate, planned_day = getNextWorkoutDay s,
                               completed = False, rescheduled = True\<rparr> s
               | Some existing \<Rightarrow> Inr s) of
           Inl e \<Rightarrow> Inl e
         | Inr s' \<Rightarrow> fill_loop (currentDate + 1) todayDate s')
      else Inr s)"
  by pat_completeness auto
termination
  by (relation "measure (\<lambda>(currentDate, todayDate, s). nat (todayDate - currentDate))") auto

declare fill_loop.simps [simp del]

text \<open>
  The first part of the handler, "check for missed days before today":
  \<^verbatim>\<open>
  const lastEntry = db.prepare("SELECT * FROM trained_days ORDER BY date DESC LIMIT 1").get();
  if (lastEntry && lastEntry.date < today) {
    let currentDate = new Date(lastEntry.date);
    currentDate.setDate(currentDate.getDate() + 1);
    const todayDate = new Date(today);
    while (currentDate < todayDate) { ... }
  }
  \<close>
\<close>

definition fill_missed_days :: "isodate \<Rightarrow> store \<Rightarrow> error + store" where
  "fill_missed_days today s =
     (case limit_1 (order_by_date_desc s) of
        None \<Rightarrow> Inr s
      | Some lastEntry \<Rightarrow>
          if date lastEntry < today then fill_loop (date lastEntry + 1) today s else Inr s)"

text \<open>
  The second part, which finds or creates the row of today:
  \<^verbatim>\<open>
  let status = db.prepare("SELECT * FROM trained_days WHERE date = ?").get(today) as any;
  if (!status) {
    const plannedDay = getNextWorkoutDay();
    db.prepare("INSERT INTO trained_days (date, planned_day) VALUES (?, ?)").run(today, plannedDay);
    status = { date: today, planned_day: plannedDay, completed: 0, rescheduled: 0 };
  }
  \<close>
  The inserted row takes the defaults of the two flags; the \<^verbatim>\<open>status\<close> of the response is
  the object literal. The handler goes on to read the tables \<^verbatim>\<open>workouts\<close> and
  \<^verbatim>\<open>diets\<close>, which are not modelled; its result here is the table and \<^verbatim>\<open>status\<close>.
\<close>

definition today_status :: "isodate \<Rightarrow> store \<Rightarrow> error + store \<times> row" where
  "today_status today s =
     (case select_by_date today s of
        Some status \<Rightarrow> Inr (s, status)
      | None \<Rightarrow>
          (let plannedDay = getNextWorkoutDay s in
           case insert_row \<lparr>date = today, planned_day = plannedDay,
                            completed = False, rescheduled = False\<rparr> s of
             Inl e \<Rightarrow> Inl e
           | Inr s' \<Rightarrow>
               Inr (s', \<lparr>date = today, planned_day = plannedDay,
                         completed = False, rescheduled = False\<rparr>)))"

definition api_status :: "isodate \<Rightarrow> store \<Rightarrow> error + store \<times> row" where
  "api_status today s =
     (case fill_missed_days today s of
        Inl e \<Rightarrow> Inl e
      | Inr s' \<Rightarrow> today_status today s')"

subsection \<open>\<^verbatim>\<open>POST /api/complete\<close>\<close>

text \<open>\<^verbatim>\<open>UPDATE trained_days SET completed = 1 WHERE date = ?\<close>, run with \<^verbatim>\<open>today\<close>.\<close>

definition api_complete :: "isodate \<Rightarrow> store \<Rightarrow> store" where
  "api_complete today s = map (\<lambda>r. if date r = today then r\<lparr>completed := True\<rparr> else r) s"

subsection \<open>The rows the backfill adds\<close>

text \<open>The dates from \<open>a\<close> up to but not including \<open>b\<close> that have no row in \<open>s\<close>.\<close>

definition missing_dates :: "isodate \<Rightarrow> isodate \<Rightarrow> store \<Rightarrow> isodate list" where
  "missing_dates a b s = filter (\<lambda>d. d \<notin> dates s) [a..b - 1]"

definition rescheduled_row :: "int \<Rightarrow> isodate \<Rightarrow> row" where
  "rescheduled_row p d = \<lparr>date = d, planned_day = p, completed = False, rescheduled = True\<rparr>"

definition planned_in_range :: "store \<Rightarrow> bool" where
  "planned_in_range s = list_all (\<lambda>r. 1 \<le> planned_day r \<and> planned_day r \<le> 5) s"

text \<open>
  The dates the first part of the handler visits without finding a row: those after the
  last entry and before \<open>today\<close>.
\<close>

definition backfill_dates :: "isodate \<Rightarrow> store \<Rightarrow> isodate list" where
  "backfill_dates today s =
     (case limit_1 (order_by_date_desc s) of
        None \<Rightarrow> []
      | Some lastEntry \<Rightarrow> missing_dates (date lastEntry + 1) today s)"

section \<open>Properties\<close>

subsection \<open>Queries\<close>

lemma limit_1_None: "limit_1 (order_by_date_desc rs) = None \<longleftrightarrow> rs = []"
proof -
  have "rev (sort_key date rs) = [] \<longleftrightarrow> rs = []"
    by (metis length_0_conv length_rev length_sort)
  then show ?thesis
    by (cases "rev (sort_key date rs)") (simp_all add: limit_1_def order_by_date_desc_def)
qed

lemma limit_1_Some:
  assumes "limit_1 (order_by_date_desc rs) = Some r"
  shows "r \<in> set rs" and "\<forall>q\<in>set rs. date q \<le> date r"
proof -
  from assms obtain rest where "rev (sort_key date rs) = r # rest"
    by (auto simp: limit_1_def order_by_date_desc_def split: list.splits)
  then have "rev (rev (sort_key date rs)) = rev (r # rest)" by simp
  then have eq: "sort_key date rs = rev rest @ [r]" by simp
  have "set (sort_key date rs) = set rs" by simp
  with eq have s: "set rs = set rest \<union> {r}" by simp
  then show "r \<in> set rs" by simp
  have "sorted (map date (sort_key date rs))" by (rule sorted_sort_key)
  with eq have "\<forall>q\<in>set rest. date q \<le> date r"
    by (simp add: sorted_append)
  with s show "\<forall>q\<in>set rs. date q \<le> date r" by auto
qed

lemma limit_1_exists: "rs \<noteq> [] \<Longrightarrow> \<exists>r. limit_1 (order_by_date_desc rs) = Some r"
  using limit_1_None [of rs] by (cases "limit_1 (order_by_date_desc rs)") simp_all

lemma primary_key_inj: "primary_key s \<Longrightarrow> r \<in> set s \<Longrightarrow> q \<in> set s \<Longrightarrow> date r = date q \<Longrightarrow> r = q"
  unfolding primary_key_def by (meson distinct_map inj_onD)

lemma primary_key_filter: "primary_key s \<Longrightarrow> primary_key (filter P s)"
  unfolding primary_key_def by (rule distinct_map_filter)

lemma limit_1_eq:
  assumes "primary_key rs" "r \<in> set rs" "\<forall>q\<in>set rs. date q \<le> date r"
  shows "limit_1 (order_by_date_desc rs) = Some r"
proof -
  from assms(2) have "rs \<noteq> []" by auto
  then obtain r' where r': "limit_1 (order_by_date_desc rs) = Some r'"
    using limit_1_exists by blast
  from limit_1_Some [OF r'] assms(2,3) have "r' \<in> set rs" "date r' = date r"
    by (auto intro: antisym)
  with assms(1,2) have "r' = r" by (auto dest: primary_key_inj)
  with r' show ?thesis by simp
qed

lemma select_by_date_None: "select_by_date d s = None \<longleftrightarrow> d \<notin> dates s"
  by (auto simp: select_by_date_def dates_def find_None_iff)

lemma select_by_date_Some: "select_by_date d s = Some r \<Longrightarrow> r \<in> set s \<and> date r = d"
  by (auto simp: select_by_date_def find_Some_iff)

lemma select_by_date_append:
  "select_by_date d (s @ t) = (case select_by_date d s of None \<Rightarrow> select_by_date d t | Some r \<Rightarrow> Some r)"
  by (induction s) (auto simp: select_by_date_def)

lemma getNextWorkoutDay_append:
  "list_all (\<lambda>r. \<not> completed r) t \<Longrightarrow> getNextWorkoutDay (s @ t) = getNextWorkoutDay s"
proof -
  assume "list_all (\<lambda>r. \<not> completed r) t"
  then have "filter completed t = []" by (induction t) auto
  then show ?thesis by (simp add: getNextWorkoutDay_def)
qed

lemma dates_append: "dates (s @ t) = dates s \<union> dates t"
  by (simp add: dates_def)

subsection \<open>The loop in closed form\<close>

lemma missing_dates_step_in:
  "a < b \<Longrightarrow> a \<in> dates s \<Longrightarrow> missing_dates a b s = missing_dates (a + 1) b s"
  by (simp add: missing_dates_def upto_rec1 [of a "b - 1"])

lemma missing_dates_step_out:
  "a < b \<Longrightarrow> a \<notin> dates s \<Longrightarrow>
   missing_dates a b s = a # missing_dates (a + 1) b (s @ [rescheduled_row p a])"
proof -
  assume ab: "a < b" and out: "a \<notin> dates s"
  have "filter (\<lambda>d. d \<notin> dates (s @ [rescheduled_row p a])) [a + 1..b - 1]
        = filter (\<lambda>d. d \<notin> dates s) [a + 1..b - 1]"
    by (rule filter_cong) (auto simp: dates_def rescheduled_row_def)
  with ab out show ?thesis
    by (simp add: missing_dates_def upto_rec1 [of a "b - 1"])
qed

lemma missing_dates_empty: "b \<le> a \<Longrightarrow> missing_dates a b s = []"
  by (simp add: missing_dates_def)

lemma fill_loop_eq:
  "fill_loop a b s = Inr (s @ map (rescheduled_row (getNextWorkoutDay s)) (missing_dates a b s))"
proof (induction a b s rule: fill_loop.induct)
  case (1 a b s)
  show ?case
  proof (cases "a < b")
    case False
    then show ?thesis by (simp add: fill_loop.simps [of a b s] missing_dates_empty)
  next
    case True
    show ?thesis
    proof (cases "select_by_date a s")
      case None
      let ?r = "rescheduled_row (getNextWorkoutDay s) a"
      from None have out: "a \<notin> dates s" by (simp add: select_by_date_None)
      then have ins: "insert_row ?r s = Inr (s @ [?r])"
        by (simp add: insert_row_def rescheduled_row_def)
      have same: "getNextWorkoutDay (s @ [?r]) = getNextWorkoutDay s"
        by (rule getNextWorkoutDay_append) (simp add: rescheduled_row_def)
      from True None ins have "fill_loop a b s = fill_loop (a + 1) b (s @ [?r])"
        by (simp add: fill_loop.simps [of a b s] rescheduled_row_def)
      also have "\<dots> = Inr ((s @ [?r]) @ map (rescheduled_row (getNextWorkoutDay (s @ [?r])))
                        (missing_dates (a + 1) b (s @ [?r])))"
        using "1.IH" [OF True, of "s @ [?r]"] None ins
        by (simp add: rescheduled_row_def)
      finally show ?thesis
        using missing_dates_step_out [OF True out, of "getNextWorkoutDay s"] same by simp
    next
      case (Some existing)
      then have "a \<in> dates s" using select_by_date_None [of a s] by auto
      with True Some "1.IH" [OF True, of s] show ?thesis
        by (simp add: fill_loop.simps [of a b s] missing_dates_step_in)
    qed
  qed
qed

subsection \<open>The handlers in closed form\<close>

lemma fill_missed_days_eq:
  "fill_missed_days today s =
     Inr (s @ map (rescheduled_row (getNextWorkoutDay s)) (backfill_dates today s))"
proof (cases "limit_1 (order_by_date_desc s)")
  case None
  then show ?thesis by (simp add: fill_missed_days_def backfill_dates_def)
next
  case (Some lastEntry)
  then show ?thesis
    by (simp add: fill_missed_days_def backfill_dates_def fill_loop_eq missing_dates_empty)
qed

lemma backfill_dates_Nil [simp]: "backfill_dates today [] = []"
  by (simp add: backfill_dates_def limit_1_def order_by_date_desc_def)

lemma backfill_dates_bounds:
  assumes "d \<in> set (backfill_dates today s)"
  shows "d < today" and "d \<notin> dates s"
  using assms
  by (auto simp: backfill_dates_def missing_dates_def split: option.splits)

lemma backfill_dates_distinct: "distinct (backfill_dates today s)"
  by (simp add: backfill_dates_def missing_dates_def split: option.splits)

lemma backfill_dates_latest:
  assumes "e \<in> set s" "\<forall>r\<in>set s. date r \<le> date e"
  shows "backfill_dates today s = [date e + 1..today - 1]"
proof -
  from assms(1) have "s \<noteq> []" by auto
  then obtain l where l: "limit_1 (order_by_date_desc s) = Some l"
    using limit_1_exists by blast
  from limit_1_Some [OF l] assms have "date l = date e"
    by (auto intro: antisym)
  moreover have "filter (\<lambda>d. d \<notin> dates s) [date e + 1..today - 1] = [date e + 1..today - 1]"
    using assms(2) by (auto simp: filter_id_conv dates_def)
  ultimately show ?thesis
    using l by (simp add: backfill_dates_def missing_dates_def)
qed

lemma dates_rescheduled [simp]: "dates (map (rescheduled_row p) ds) = set ds"
  by (auto simp: dates_def rescheduled_row_def image_iff)

lemma today_status_found:
  "select_by_date today s = Some status \<Longrightarrow> today_status today s = Inr (s, status)"
  by (simp add: today_status_def)

lemma today_status_new:
  "today \<notin> dates s \<Longrightarrow>
   today_status today s =
     Inr (s @ [\<lparr>date = today, planned_day = getNextWorkoutDay s,
                 completed = False, rescheduled = False\<rparr>],
          \<lparr>date = today, planned_day = getNextWorkoutDay s,
            completed = False, rescheduled = False\<rparr>)"
  by (simp add: today_status_def select_by_date_None [THEN iffD2] insert_row_def Let_def)

lemma today_status_total: "\<exists>s' status. today_status today s = Inr (s', status)"
proof (cases "select_by_date today s")
  case None
  then show ?thesis by (simp add: today_status_new select_by_date_None)
next
  case (Some status)
  then show ?thesis by (simp add: today_status_found)
qed

lemma today_status_select:
  "today_status today s = Inr (s', status) \<Longrightarrow> select_by_date today s' = Some status"
proof (cases "select_by_date today s")
  case None
  assume a: "today_status today s = Inr (s', status)"
  from None have "today \<notin> dates s" by (simp add: select_by_date_None)
  from today_status_new [OF this] a None show ?thesis
    by (auto simp: select_by_date_append) (simp add: select_by_date_def)
next
  case (Some st)
  assume "today_status today s = Inr (s', status)"
  with Some show ?thesis by (simp add: today_status_found)
qed

lemma fill_missed_days_present:
  assumes "today \<in> dates s"
  shows "fill_missed_days today s = Inr s"
proof -
  from assms obtain q where q: "q \<in> set s" "date q = today" by (auto simp: dates_def)
  then have "s \<noteq> []" by auto
  then obtain l where l: "limit_1 (order_by_date_desc s) = Some l"
    using limit_1_exists by blast
  from limit_1_Some(2) [OF l] q have "\<not> date l < today" by auto
  with l show ?thesis by (simp add: fill_missed_days_def)
qed

lemma api_status_present:
  assumes "select_by_date today s = Some status"
  shows "api_status today s = Inr (s, status)"
proof -
  from assms have "today \<in> dates s" using select_by_date_None [of today s] by auto
  then show ?thesis
    by (simp add: api_status_def fill_missed_days_present today_status_found assms)
qed

lemma api_status_eq:
  "api_status today s =
     today_status today (s @ map (rescheduled_row (getNextWorkoutDay s)) (backfill_dates today s))"
  by (simp add: api_status_def fill_missed_days_eq)

lemma api_status_total: "\<exists>s' status. api_status today s = Inr (s', status)"
  by (simp add: api_status_eq today_status_total)

lemma api_status_select:
  "api_status today s = Inr (s', status) \<Longrightarrow> select_by_date today s' = Some status"
  by (simp add: api_status_eq today_status_select)

lemma getNextWorkoutDay_backfilled:
  "getNextWorkoutDay (s @ map (rescheduled_row p) ds) = getNextWorkoutDay s"
  by (rule getNextWorkoutDay_append) (simp add: list_all_iff rescheduled_row_def)

lemma api_status_new:
  assumes "today \<notin> dates s"
  shows "api_status today s =
     Inr (s @ map (rescheduled_row (getNextWorkoutDay s)) (backfill_dates today s)
            @ [\<lparr>date = today, planned_day = getNextWorkoutDay s,
                 completed = False, rescheduled = False\<rparr>],
          \<lparr>date = today, planned_day = getNextWorkoutDay s,
            completed = False, rescheduled = False\<rparr>)"
proof -
  let ?s1 = "s @ map (rescheduled_row (getNextWorkoutDay s)) (backfill_dates today s)"
  have "today \<notin> set (backfill_dates today s)"
    using backfill_dates_bounds(1) [of today today s] by auto
  with assms have "today \<notin> dates ?s1" by (simp add: dates_append)
  from today_status_new [OF this] show ?thesis
    by (simp add: api_status_eq getNextWorkoutDay_backfilled)
qed

subsection \<open>The empty table\<close>

lemma getNextWorkoutDay_Nil [simp]: "getNextWorkoutDay [] = 1"
  by (simp add: getNextWorkoutDay_def limit_1_def order_by_date_desc_def)

text \<open>
  Claim C8. On the empty table, whatever \<open>today\<close> is, the first part of the handler of
  \<^verbatim>\<open>/api/status\<close> inserts nothing, and the handler creates and returns the row of
  \<open>today\<close> with planned day 1 and both flags unset.
\<close>

theorem api_status_empty_store:
  "fill_missed_days today [] = Inr [] \<and>
   api_status today [] =
     Inr ([\<lparr>date = today, planned_day = 1, completed = False, rescheduled = False\<rparr>],
          \<lparr>date = today, planned_day = 1, completed = False, rescheduled = False\<rparr>)"
proof -
  have "fill_missed_days today [] = Inr []"
    by (simp add: fill_missed_days_eq)
  moreover have "today \<notin> dates []"
    by (simp add: dates_def)
  from api_status_new [OF this] have "api_status today [] =
     Inr ([\<lparr>date = today, planned_day = 1, completed = False, rescheduled = False\<rparr>],
          \<lparr>date = today, planned_day = 1, completed = False, rescheduled = False\<rparr>)"
    by simp
  ultimately show ?thesis by simp
qed

subsection \<open>The scenario of January 2024\<close>

lemma isoDate_2024_01_08: "isoDate 2024 1 8 = 19730"
  by (simp add: isoDate_def)

lemma isoDate_2024_01_09: "isoDate 2024 1 9 = 19731"
  by (simp add: isoDate_def)

lemma isoDate_2024_01_10: "isoDate 2024 1 10 = 19732"
  by (simp add: isoDate_def)

lemma isoDate_2024_01_11: "isoDate 2024 1 11 = 19733"
  by (simp add: isoDate_def)

lemma getNextWorkoutDay_single:
  "getNextWorkoutDay [\<lparr>date = d, planned_day = p, completed = True, rescheduled = b\<rparr>]
     = js_rem p 5 + 1"
  by (simp add: getNextWorkoutDay_def limit_1_def order_by_date_desc_def)

text \<open>
  Claim C4. The table holds the single row of 2024-01-08 with planned day 2, completed, and
  \<open>today\<close> is 2024-01-11. The first part of the handler inserts the rows of 2024-01-09 and
  2024-01-10, both with planned day 3, not completed, rescheduled; then the row of
  2024-01-11 is inserted with planned day 3 and both flags unset, and returned. The lists
  are in the order of insertion.
\<close>

theorem api_status_scenario:
  "fill_missed_days (isoDate 2024 1 11)
     [\<lparr>date = isoDate 2024 1 8, planned_day = 2, completed = True, rescheduled = b\<rparr>] =
   Inr [\<lparr>date = isoDate 2024 1 8, planned_day = 2, completed = True, rescheduled = b\<rparr>,
        \<lparr>date = isoDate 2024 1 9, planned_day = 3, completed = False, rescheduled = True\<rparr>,
        \<lparr>date = isoDate 2024 1 10, planned_day = 3, completed = False, rescheduled = True\<rparr>] \<and>
   api_status (isoDate 2024 1 11)
     [\<lparr>date = isoDate 2024 1 8, planned_day = 2, completed = True, rescheduled = b\<rparr>] =
   Inr ([\<lparr>date = isoDate 2024 1 8, planned_day = 2, completed = True, rescheduled = b\<rparr>,
         \<lparr>date = isoDate 2024 1 9, planned_day = 3, completed = False, rescheduled = True\<rparr>,
         \<lparr>date = isoDate 2024 1 10, planned_day = 3, completed = False, rescheduled = True\<rparr>,
         \<lparr>date = isoDate 2024 1 11, planned_day = 3, completed = False, rescheduled = False\<rparr>],
        \<lparr>date = isoDate 2024 1 11, planned_day = 3, completed = False, rescheduled = False\<rparr>)"
proof -
  let ?r = "\<lparr>date = 19730, planned_day = 2, completed = True, rescheduled = b\<rparr>"
  have g: "getNextWorkoutDay [?r] = 3"
    by (simp add: getNextWorkoutDay_single js_rem_def)
  have "backfill_dates 19733 [?r] = [date ?r + 1..19733 - 1]"
    by (rule backfill_dates_latest) simp_all
  also have "\<dots> = [19731, 19732]"
    by (simp add: upto_rec1)
  finally have b: "backfill_dates 19733 [?r] = [19731, 19732]" .
  have "19733 \<notin> dates [?r]"
    by (simp add: dates_def)
  from api_status_new [OF this] fill_missed_days_eq [of 19733 "[?r]"] show ?thesis
    by (simp add: g b rescheduled_row_def isoDate_2024_01_08 isoDate_2024_01_09
        isoDate_2024_01_10 isoDate_2024_01_11)
qed

subsection \<open>Idempotence\<close>

text \<open>
  Claim C3. For every table and every \<open>today\<close>, the handler of \<^verbatim>\<open>/api/status\<close> returns
  a table and a row, and run again on that table it returns the same row and leaves the
  table as it is: the second run inserts nothing.
\<close>

theorem api_status_idempotent:
  "\<exists>s' status. api_status today s = Inr (s', status) \<and> api_status today s' = Inr (s', status)"
proof -
  obtain s' status where first: "api_status today s = Inr (s', status)"
    using api_status_total by blast
  then have "select_by_date today s' = Some status"
    by (rule api_status_select)
  then have "api_status today s' = Inr (s', status)"
    by (rule api_status_present)
  with first show ?thesis by blast
qed

subsection \<open>The next workout day\<close>

lemma js_rem_nonneg: "0 \<le> a \<Longrightarrow> js_rem a 5 = a mod 5"
  by (cases "a = 0") (simp_all add: js_rem_def)

lemma getNextWorkoutDay_none:
  "filter completed s = [] \<Longrightarrow> getNextWorkoutDay s = 1"
  by (simp add: getNextWorkoutDay_def limit_1_def order_by_date_desc_def)

lemma getNextWorkoutDay_last:
  assumes "primary_key s" "r \<in> set s" "completed r"
    and "\<forall>q\<in>set s. completed q \<longrightarrow> date q \<le> date r"
  shows "getNextWorkoutDay s = js_rem (planned_day r) 5 + 1"
proof -
  have "limit_1 (order_by_date_desc (filter completed s)) = Some r"
    using assms by (intro limit_1_eq primary_key_filter) auto
  then show ?thesis by (simp add: getNextWorkoutDay_def)
qed

lemma getNextWorkoutDay_some:
  assumes "filter completed s \<noteq> []"
  shows "\<exists>r. r \<in> set s \<and> completed r \<and> list_all (\<lambda>q. completed q \<longrightarrow> date q \<le> date r) s
           \<and> getNextWorkoutDay s = js_rem (planned_day r) 5 + 1"
proof -
  from assms obtain r where r: "limit_1 (order_by_date_desc (filter completed s)) = Some r"
    using limit_1_exists by blast
  from limit_1_Some [OF r] have "r \<in> set s" "completed r"
    "\<forall>q\<in>set s. completed q \<longrightarrow> date q \<le> date r"
    by auto
  moreover from r have "getNextWorkoutDay s = js_rem (planned_day r) 5 + 1"
    by (simp add: getNextWorkoutDay_def)
  ultimately show ?thesis by (auto simp: list_all_iff)
qed

lemma getNextWorkoutDay_range:
  assumes "planned_in_range s"
  shows "1 \<le> getNextWorkoutDay s \<and> getNextWorkoutDay s \<le> 5"
proof (cases "filter completed s = []")
  case True
  then show ?thesis by (simp add: getNextWorkoutDay_none)
next
  case False
  from getNextWorkoutDay_some [OF this] obtain r where
    r: "r \<in> set s" and g: "getNextWorkoutDay s = js_rem (planned_day r) 5 + 1"
    by blast
  from assms r have "1 \<le> planned_day r" "planned_day r \<le> 5"
    by (auto simp: planned_in_range_def list_all_iff)
  then have "js_rem (planned_day r) 5 = planned_day r mod 5"
    by (simp add: js_rem_nonneg)
  with g show ?thesis by simp
qed

text \<open>
  Claim C1. On every table of the data model (one row per date, planned days from 1 to 5),
  \<^verbatim>\<open>getNextWorkoutDay\<close> returns 1 when no row is completed. Otherwise some completed row
  has the greatest date among the completed rows, and for that row, of planned day \<open>d\<close>,
  the result is \<open>(d mod 5) + 1\<close>.
\<close>

theorem getNextWorkoutDay_last_completed:
  assumes "primary_key s" and "planned_in_range s"
  shows "(filter completed s = [] \<longrightarrow> getNextWorkoutDay s = 1) \<and>
         (filter completed s \<noteq> [] \<longrightarrow>
            (\<exists>l. l \<in> set s \<and> completed l \<and>
                 list_all (\<lambda>q. completed q \<longrightarrow> date q \<le> date l) s)) \<and>
         (r \<in> set s \<and> completed r \<and> (\<forall>q\<in>set s. completed q \<longrightarrow> date q \<le> date r) \<longrightarrow>
            getNextWorkoutDay s = planned_day r mod 5 + 1)"
proof -
  have "\<exists>l. l \<in> set s \<and> completed l \<and> list_all (\<lambda>q. completed q \<longrightarrow> date q \<le> date l) s"
    if "filter completed s \<noteq> []"
    using getNextWorkoutDay_some [OF that] by blast
  moreover have "getNextWorkoutDay s = planned_day r mod 5 + 1"
    if r: "r \<in> set s" "completed r" "\<forall>q\<in>set s. completed q \<longrightarrow> date q \<le> date r"
  proof -
    from assms(2) r(1) have "0 \<le> planned_day r"
      by (auto simp: planned_in_range_def list_all_iff)
    then have "js_rem (planned_day r) 5 = planned_day r mod 5"
      by (rule js_rem_nonneg)
    with getNextWorkoutDay_last [OF assms(1) r] show ?thesis by simp
  qed
  ultimately show ?thesis
    by (auto simp: getNextWorkoutDay_none)
qed

text \<open>
  The theorem at a table without a completed row, and at a table of three rows whose last
  completed row is the one of day 2, with planned day 2.
\<close>

theorem getNextWorkoutDay_last_completed_witness:
  "primary_key [\<lparr>date = 3, planned_day = 4, completed = False, rescheduled = True\<rparr>] \<and>
   planned_in_range [\<lparr>date = 3, planned_day = 4, completed = False, rescheduled = True\<rparr>] \<and>
   filter completed [\<lparr>date = 3, planned_day = 4, completed = False, rescheduled = True\<rparr>] = [] \<and>
   getNextWorkoutDay [\<lparr>date = 3, planned_day = 4, completed = False, rescheduled = True\<rparr>] = 1 \<and>
   primary_key [\<lparr>date = 1, planned_day = 5, completed = True, rescheduled = False\<rparr>,
                \<lparr>date = 2, planned_day = 2, completed = True, rescheduled = False\<rparr>,
                \<lparr>date = 3, planned_day = 4, completed = False, rescheduled = True\<rparr>] \<and>
   planned_in_range [\<lparr>date = 1, planned_day = 5, completed = True, rescheduled = False\<rparr>,
                     \<lparr>date = 2, planned_day = 2, completed = True, rescheduled = False\<rparr>,
                     \<lparr>date = 3, planned_day = 4, completed = False, rescheduled = True\<rparr>] \<and>
   getNextWorkoutDay [\<lparr>date = 1, planned_day = 5, completed = True, rescheduled = False\<rparr>,
                      \<lparr>date = 2, planned_day = 2, completed = True, rescheduled = False\<rparr>,
                      \<lparr>date = 3, planned_day = 4, completed = False, rescheduled = True\<rparr>] = 3"
  using getNextWorkoutDay_last_completed
      [of "[\<lparr>date = 3, planned_day = 4, completed = False, rescheduled = True\<rparr>]"]
    getNextWorkoutDay_last_completed
      [of "[\<lparr>date = 1, planned_day = 5, completed = True, rescheduled = False\<rparr>,
            \<lparr>date = 2, planned_day = 2, completed = True, rescheduled = False\<rparr>,
            \<lparr>date = 3, planned_day = 4, completed = False, rescheduled = True\<rparr>]"
          "\<lparr>date = 2, planned_day = 2, completed = True, rescheduled = False\<rparr>"]
  by (simp add: primary_key_def planned_in_range_def)

text \<open>
  Claim C6. On every non-empty table whose planned days all lie between 1 and 5,
  \<^verbatim>\<open>getNextWorkoutDay\<close> returns a value between 1 and 5. If moreover the table respects its
  primary key and \<open>r\<close> is its last completed row, then the result is 1 when the planned day
  of \<open>r\<close> is 5, and \<open>k + 1\<close> when it is a \<open>k\<close> from 1 to 4.
\<close>

theorem getNextWorkoutDay_rotation:
  assumes "s \<noteq> []" "planned_in_range s"
  shows "1 \<le> getNextWorkoutDay s \<and> getNextWorkoutDay s \<le> 5 \<and>
         (primary_key s \<and> r \<in> set s \<and> completed r \<and>
          (\<forall>q\<in>set s. completed q \<longrightarrow> date q \<le> date r) \<longrightarrow>
            (planned_day r = 5 \<longrightarrow> getNextWorkoutDay s = 1) \<and>
            (1 \<le> planned_day r \<and> planned_day r \<le> 4 \<longrightarrow>
               getNextWorkoutDay s = planned_day r + 1))"
proof -
  have "getNextWorkoutDay s = js_rem (planned_day r) 5 + 1"
    if "primary_key s" "r \<in> set s" "completed r"
      "\<forall>q\<in>set s. completed q \<longrightarrow> date q \<le> date r"
    using that by (rule getNextWorkoutDay_last)
  then show ?thesis
    using getNextWorkoutDay_range [OF assms(2)] by (auto simp: js_rem_nonneg)
qed

text \<open>
  The theorem at a table whose last completed row has planned day 5, and at one whose last
  completed row has planned day 3.
\<close>

theorem getNextWorkoutDay_rotation_witness:
  "planned_in_range [\<lparr>date = 1, planned_day = 3, completed = True, rescheduled = False\<rparr>,
                     \<lparr>date = 2, planned_day = 5, completed = True, rescheduled = False\<rparr>] \<and>
   getNextWorkoutDay [\<lparr>date = 1, planned_day = 3, completed = True, rescheduled = False\<rparr>,
                      \<lparr>date = 2, planned_day = 5, completed = True, rescheduled = False\<rparr>] = 1 \<and>
   planned_in_range [\<lparr>date = 1, planned_day = 5, completed = True, rescheduled = False\<rparr>,
                     \<lparr>date = 2, planned_day = 3, completed = True, rescheduled = False\<rparr>,
                     \<lparr>date = 3, planned_day = 4, completed = False, rescheduled = True\<rparr>] \<and>
   getNextWorkoutDay [\<lparr>date = 1, planned_day = 5, completed = True, rescheduled = False\<rparr>,
                      \<lparr>date = 2, planned_day = 3, completed = True, rescheduled = False\<rparr>,
                      \<lparr>date = 3, planned_day = 4, completed = False, rescheduled = True\<rparr>] = 4"
  using getNextWorkoutDay_rotation
      [of "[\<lparr>date = 1, planned_day = 3, completed = True, rescheduled = False\<rparr>,
            \<lparr>date = 2, planned_day = 5, completed = True, rescheduled = False\<rparr>]"
          "\<lparr>date = 2, planned_day = 5, completed = True, rescheduled = False\<rparr>"]
    getNextWorkoutDay_rotation
      [of "[\<lparr>date = 1, planned_day = 5, completed = True, rescheduled = False\<rparr>,
            \<lparr>date = 2, planned_day = 3, completed = True, rescheduled = False\<rparr>,
            \<lparr>date = 3, planned_day = 4, completed = False, rescheduled = True\<rparr>]"
          "\<lparr>date = 2, planned_day = 3, completed = True, rescheduled = False\<rparr>"]
  by (simp add: primary_key_def planned_in_range_def)

subsection \<open>Gaps before and entries after today\<close>

text \<open>
  Claim C2. The most recent row \<open>e\<close> of the table is dated three days before \<open>today\<close>
  (so no row lies between the two, and none at \<open>today\<close>). Then the first part of the handler
  of \<^verbatim>\<open>/api/status\<close> appends exactly two rows, for the two dates strictly between, both
  rescheduled, not completed, with the planned day \<^verbatim>\<open>getNextWorkoutDay\<close> gives on the
  table as it was; the handler then appends and returns the row of \<open>today\<close>.
\<close>

theorem api_status_three_day_gap:
  assumes "e \<in> set s" and "\<forall>r\<in>set s. date r \<le> date e" and "date e = today - 3"
  shows "fill_missed_days today s =
           Inr (s @ [\<lparr>date = today - 2, planned_day = getNextWorkoutDay s,
                       completed = False, rescheduled = True\<rparr>,
                     \<lparr>date = today - 1, planned_day = getNextWorkoutDay s,
                       completed = False, rescheduled = True\<rparr>]) \<and>
         api_status today s =
           Inr (s @ [\<lparr>date = today - 2, planned_day = getNextWorkoutDay s,
                       completed = False, rescheduled = True\<rparr>,
                     \<lparr>date = today - 1, planned_day = getNextWorkoutDay s,
                       completed = False, rescheduled = True\<rparr>,
                     \<lparr>date = today, planned_day = getNextWorkoutDay s,
                       completed = False, rescheduled = False\<rparr>],
                \<lparr>date = today, planned_day = getNextWorkoutDay s,
                  completed = False, rescheduled = False\<rparr>)"
proof -
  have "backfill_dates today s = [date e + 1..today - 1]"
    using assms(1,2) by (rule backfill_dates_latest)
  also have "\<dots> = [today - 2, today - 1]"
    using assms(3) upto_rec1 [of "today - 2" "today - 1"] by simp
  finally have b: "backfill_dates today s = [today - 2, today - 1]" .
  have "today \<notin> dates s"
    using assms(2,3) by (auto simp: dates_def)
  from api_status_new [OF this] fill_missed_days_eq [of today s] show ?thesis
    by (simp add: b rescheduled_row_def)
qed

text \<open>The theorem at a table of two rows, the later one three days before \<open>today = 13\<close>.\<close>

theorem api_status_three_day_gap_witness:
  "api_status 13 [\<lparr>date = 9, planned_day = 4, completed = True, rescheduled = False\<rparr>,
                  \<lparr>date = 10, planned_day = 5, completed = False, rescheduled = False\<rparr>] =
     Inr ([\<lparr>date = 9, planned_day = 4, completed = True, rescheduled = False\<rparr>,
           \<lparr>date = 10, planned_day = 5, completed = False, rescheduled = False\<rparr>,
           \<lparr>date = 11, planned_day = 5, completed = False, rescheduled = True\<rparr>,
           \<lparr>date = 12, planned_day = 5, completed = False, rescheduled = True\<rparr>,
           \<lparr>date = 13, planned_day = 5, completed = False, rescheduled = False\<rparr>],
          \<lparr>date = 13, planned_day = 5, completed = False, rescheduled = False\<rparr>)"
proof -
  let ?s = "[\<lparr>date = 9, planned_day = 4, completed = True, rescheduled = False\<rparr>,
             \<lparr>date = 10, planned_day = 5, completed = False, rescheduled = False\<rparr>]"
  have g: "getNextWorkoutDay ?s = 5"
    by (simp add: getNextWorkoutDay_def limit_1_def order_by_date_desc_def js_rem_def)
  show ?thesis
    using api_status_three_day_gap
      [of "\<lparr>date = 10, planned_day = 5, completed = False, rescheduled = False\<rparr>" ?s 13]
    by (simp add: g)
qed

text \<open>
  Claim C10. The most recent row \<open>e\<close> of the table is dated after \<open>today\<close>, and the table has
  no row for \<open>today\<close>. Then the first part of the handler of \<^verbatim>\<open>/api/status\<close> inserts nothing,
  and the handler appends and returns the row of \<open>today\<close>, with the planned day
  \<^verbatim>\<open>getNextWorkoutDay\<close> gives on the table and both flags unset.
\<close>

theorem api_status_entry_after_today:
  assumes "e \<in> set s" and "\<forall>r\<in>set s. date r \<le> date e" and "today < date e"
    and "today \<notin> dates s"
  shows "fill_missed_days today s = Inr s \<and>
         api_status today s =
           Inr (s @ [\<lparr>date = today, planned_day = getNextWorkoutDay s,
                       completed = False, rescheduled = False\<rparr>],
                \<lparr>date = today, planned_day = getNextWorkoutDay s,
                  completed = False, rescheduled = False\<rparr>)"
proof -
  have "backfill_dates today s = [date e + 1..today - 1]"
    using assms(1,2) by (rule backfill_dates_latest)
  with assms(3) have b: "backfill_dates today s = []" by simp
  from api_status_new [OF assms(4)] fill_missed_days_eq [of today s] show ?thesis
    by (simp add: b)
qed

text \<open>The theorem at a table whose rows are dated 9 and 20, with \<open>today = 13\<close>.\<close>

theorem api_status_entry_after_today_witness:
  "13 \<notin> dates [\<lparr>date = 9, planned_day = 4, completed = True, rescheduled = False\<rparr>,
                 \<lparr>date = 20, planned_day = 5, completed = False, rescheduled = False\<rparr>] \<and>
   api_status 13 [\<lparr>date = 9, planned_day = 4, completed = True, rescheduled = False\<rparr>,
                  \<lparr>date = 20, planned_day = 5, completed = False, rescheduled = False\<rparr>] =
     Inr ([\<lparr>date = 9, planned_day = 4, completed = True, rescheduled = False\<rparr>,
           \<lparr>date = 20, planned_day = 5, completed = False, rescheduled = False\<rparr>,
           \<lparr>date = 13, planned_day = 5, completed = False, rescheduled = False\<rparr>],
          \<lparr>date = 13, planned_day = 5, completed = False, rescheduled = False\<rparr>)"
proof -
  let ?s = "[\<lparr>date = 9, planned_day = 4, completed = True, rescheduled = False\<rparr>,
             \<lparr>date = 20, planned_day = 5, completed = False, rescheduled = False\<rparr>]"
  have g: "getNextWorkoutDay ?s = 5"
    by (simp add: getNextWorkoutDay_def limit_1_def order_by_date_desc_def js_rem_def)
  show ?thesis
    using api_status_entry_after_today
      [of "\<lparr>date = 20, planned_day = 5, completed = False, rescheduled = False\<rparr>" ?s 13]
    by (simp add: g dates_def)
qed

subsection \<open>Invariants of the table\<close>

lemma planned_in_range_append:
  "planned_in_range (s @ t) \<longleftrightarrow> planned_in_range s \<and> planned_in_range t"
  by (simp add: planned_in_range_def)

lemma planned_in_range_rescheduled:
  "1 \<le> p \<Longrightarrow> p \<le> 5 \<Longrightarrow> planned_in_range (map (rescheduled_row p) ds)"
  by (simp add: planned_in_range_def list_all_iff rescheduled_row_def)

lemma today_status_cases:
  assumes "today_status today s = Inr (s', status)"
  shows "s' = s \<and> status \<in> set s \<or>
         s' = s @ [status] \<and> today \<notin> dates s \<and>
         status = \<lparr>date = today, planned_day = getNextWorkoutDay s,
                    completed = False, rescheduled = False\<rparr>"
proof (cases "select_by_date today s")
  case None
  then have "today \<notin> dates s" by (simp add: select_by_date_None)
  from today_status_new [OF this] assms this show ?thesis by simp
next
  case (Some st)
  from today_status_found [OF this] assms select_by_date_Some [OF Some] show ?thesis
    by simp
qed

lemma today_status_range:
  assumes "planned_in_range s" and "today_status today s = Inr (s', status)"
  shows "planned_in_range s' \<and> 1 \<le> planned_day status \<and> planned_day status \<le> 5"
  using today_status_cases [OF assms(2)] assms(1) getNextWorkoutDay_range [OF assms(1)]
  by (auto simp: planned_in_range_def list_all_iff)

lemma fill_missed_days_range:
  assumes "planned_in_range s"
  shows "planned_in_range (s @ map (rescheduled_row (getNextWorkoutDay s)) ds)"
  using assms getNextWorkoutDay_range [OF assms]
  by (simp add: planned_in_range_append planned_in_range_rescheduled)

lemma api_complete_range: "planned_in_range s \<Longrightarrow> planned_in_range (api_complete today s)"
  by (induction s) (simp_all add: planned_in_range_def api_complete_def)

text \<open>
  Claim C5. That every planned day lies between 1 and 5 holds of the empty table, and on a
  table where it holds: \<^verbatim>\<open>getNextWorkoutDay\<close> returns a value between 1 and 5; the first
  part of the handler of \<^verbatim>\<open>/api/status\<close> (the backfill), its second part (the row of
  today) and the whole handler each return a table where it holds, the returned row
  included; and so does the handler of \<^verbatim>\<open>/api/complete\<close>.
\<close>

theorem planned_day_invariant:
  "planned_in_range [] \<and>
   (planned_in_range s \<longrightarrow>
      1 \<le> getNextWorkoutDay s \<and> getNextWorkoutDay s \<le> 5 \<and>
      (\<exists>s'. fill_missed_days today s = Inr s' \<and> planned_in_range s') \<and>
      (\<exists>s' status. today_status today s = Inr (s', status) \<and> planned_in_range s' \<and>
         1 \<le> planned_day status \<and> planned_day status \<le> 5) \<and>
      (\<exists>s' status. api_status today s = Inr (s', status) \<and> planned_in_range s' \<and>
         1 \<le> planned_day status \<and> planned_day status \<le> 5) \<and>
      planned_in_range (api_complete today s))"
proof -
  have "planned_in_range []" by (simp add: planned_in_range_def)
  moreover have "1 \<le> getNextWorkoutDay s \<and> getNextWorkoutDay s \<le> 5 \<and>
      (\<exists>s'. fill_missed_days today s = Inr s' \<and> planned_in_range s') \<and>
      (\<exists>s' status. today_status today s = Inr (s', status) \<and> planned_in_range s' \<and>
         1 \<le> planned_day status \<and> planned_day status \<le> 5) \<and>
      (\<exists>s' status. api_status today s = Inr (s', status) \<and> planned_in_range s' \<and>
         1 \<le> planned_day status \<and> planned_day status \<le> 5) \<and>
      planned_in_range (api_complete today s)" if inv: "planned_in_range s"
  proof -
    let ?s1 = "s @ map (rescheduled_row (getNextWorkoutDay s)) (backfill_dates today s)"
    have s1: "planned_in_range ?s1" using inv by (rule fill_missed_days_range)
    have a: "\<exists>s'. fill_missed_days today s = Inr s' \<and> planned_in_range s'"
      using s1 by (simp add: fill_missed_days_eq)
    obtain s2 st2 where t: "today_status today s = Inr (s2, st2)"
      using today_status_total by blast
    have b: "\<exists>s' status. today_status today s = Inr (s', status) \<and> planned_in_range s' \<and>
         1 \<le> planned_day status \<and> planned_day status \<le> 5"
      using t today_status_range [OF inv t] by blast
    obtain s3 st3 where u: "today_status today ?s1 = Inr (s3, st3)"
      using today_status_total by blast
    have c: "\<exists>s' status. api_status today s = Inr (s', status) \<and> planned_in_range s' \<and>
         1 \<le> planned_day status \<and> planned_day status \<le> 5"
      using u today_status_range [OF s1 u] by (simp add: api_status_eq)
    from a b c getNextWorkoutDay_range [OF inv] api_complete_range [OF inv]
    show ?thesis by blast
  qed
  ultimately show ?thesis by blast
qed

text \<open>The theorem at a table of one completed row, with \<open>today\<close> two days later.\<close>

theorem planned_day_invariant_witness:
  "planned_in_range [\<lparr>date = 9, planned_day = 5, completed = True, rescheduled = False\<rparr>] \<and>
   getNextWorkoutDay [\<lparr>date = 9, planned_day = 5, completed = True, rescheduled = False\<rparr>] = 1 \<and>
   (\<exists>s' status.
      api_status 11 [\<lparr>date = 9, planned_day = 5, completed = True, rescheduled = False\<rparr>]
        = Inr (s', status) \<and>
      planned_in_range s' \<and> 1 \<le> planned_day status \<and> planned_day status \<le> 5) \<and>
   planned_in_range
     (api_complete 11 [\<lparr>date = 9, planned_day = 5, completed = True, rescheduled = False\<rparr>])"
  using planned_day_invariant
    [of "[\<lparr>date = 9, planned_day = 5, completed = True, rescheduled = False\<rparr>]" 11]
  by (simp add: planned_in_range_def getNextWorkoutDay_single js_rem_def)

subsection \<open>Completing today and the primary key\<close>

lemma api_complete_dates: "map date (api_complete today s) = map date s"
  by (induction s) (simp_all add: api_complete_def)

lemma api_complete_others:
  "filter (\<lambda>r. date r \<noteq> today) (api_complete today s) = filter (\<lambda>r. date r \<noteq> today) s"
  by (induction s) (simp_all add: api_complete_def)

lemma api_complete_today:
  "filter (\<lambda>r. date r = today) (api_complete today s) =
     map (\<lambda>r. \<lparr>date = date r, planned_day = planned_day r, completed = True,
                rescheduled = rescheduled r\<rparr>) (filter (\<lambda>r. date r = today) s)"
  by (induction s) (simp_all add: api_complete_def)

lemma api_complete_select:
  "select_by_date today s = Some r \<Longrightarrow>
   select_by_date today (api_complete today s) =
     Some \<lparr>date = today, planned_day = planned_day r, completed = True,
            rescheduled = rescheduled r\<rparr>"
  by (induction s) (auto simp: api_complete_def select_by_date_def split: if_splits)

lemma api_complete_absent: "select_by_date today s = None \<Longrightarrow> api_complete today s = s"
  by (induction s) (auto simp: api_complete_def select_by_date_def split: if_splits)

text \<open>
  Claim C7. The handler of \<^verbatim>\<open>/api/complete\<close> adds and removes no row and changes no date;
  the rows of the other dates are as they were; a row of \<open>today\<close> keeps its planned day and
  its rescheduled flag and is completed afterwards, and so the row that a query for
  \<open>today\<close> returns; when the table has no row for \<open>today\<close>, it is left as it is.
\<close>

theorem api_complete_frame:
  "map date (api_complete today s) = map date s \<and>
   filter (\<lambda>r. date r \<noteq> today) (api_complete today s) = filter (\<lambda>r. date r \<noteq> today) s \<and>
   filter (\<lambda>r. date r = today) (api_complete today s) =
     map (\<lambda>r. \<lparr>date = date r, planned_day = planned_day r, completed = True,
                rescheduled = rescheduled r\<rparr>) (filter (\<lambda>r. date r = today) s) \<and>
   (select_by_date today s = Some r \<longrightarrow>
      select_by_date today (api_complete today s) =
        Some \<lparr>date = today, planned_day = planned_day r, completed = True,
               rescheduled = rescheduled r\<rparr>) \<and>
   (select_by_date today s = None \<longrightarrow> api_complete today s = s)"
  using api_complete_dates [of today s] api_complete_others [of today s]
    api_complete_today [of today s] api_complete_select [of today s r]
    api_complete_absent [of today s]
  by blast

text \<open>
  The theorem at a table with a row for \<open>today = 10\<close>, and at a table without one.
\<close>

theorem api_complete_frame_witness:
  "select_by_date 10
     [\<lparr>date = 9, planned_day = 4, completed = True, rescheduled = False\<rparr>,
      \<lparr>date = 10, planned_day = 5, completed = False, rescheduled = True\<rparr>] =
     Some \<lparr>date = 10, planned_day = 5, completed = False, rescheduled = True\<rparr> \<and>
   select_by_date 10 (api_complete 10
     [\<lparr>date = 9, planned_day = 4, completed = True, rescheduled = False\<rparr>,
      \<lparr>date = 10, planned_day = 5, completed = False, rescheduled = True\<rparr>]) =
     Some \<lparr>date = 10, planned_day = 5, completed = True, rescheduled = True\<rparr> \<and>
   select_by_date 10
     [\<lparr>date = 9, planned_day = 4, completed = True, rescheduled = False\<rparr>] = None \<and>
   api_complete 10 [\<lparr>date = 9, planned_day = 4, completed = True, rescheduled = False\<rparr>] =
     [\<lparr>date = 9, planned_day = 4, completed = True, rescheduled = False\<rparr>]"
  using api_complete_frame
      [of 10 "[\<lparr>date = 9, planned_day = 4, completed = True, rescheduled = False\<rparr>,
               \<lparr>date = 10, planned_day = 5, completed = False, rescheduled = True\<rparr>]"
          "\<lparr>date = 10, planned_day = 5, completed = False, rescheduled = True\<rparr>"]
    api_complete_frame
      [of 10 "[\<lparr>date = 9, planned_day = 4, completed = True, rescheduled = False\<rparr>]"]
  by (simp add: select_by_date_def)

lemma primary_key_append:
  "primary_key (s @ t) \<longleftrightarrow> primary_key s \<and> primary_key t \<and> dates s \<inter> dates t = {}"
  by (auto simp: primary_key_def dates_def)

lemma primary_key_rescheduled: "distinct ds \<Longrightarrow> primary_key (map (rescheduled_row p) ds)"
proof -
  have "map date (map (rescheduled_row p) ds) = ds"
    by (induction ds) (simp_all add: rescheduled_row_def)
  then show "distinct ds \<Longrightarrow> primary_key (map (rescheduled_row p) ds)"
    by (simp add: primary_key_def)
qed

lemma primary_key_backfilled:
  assumes "primary_key s"
  shows "primary_key (s @ map (rescheduled_row p) (backfill_dates today s))"
proof -
  have "dates s \<inter> set (backfill_dates today s) = {}"
    using backfill_dates_bounds(2) [of _ today s] by auto
  with assms show ?thesis
    by (simp add: primary_key_append primary_key_rescheduled backfill_dates_distinct)
qed

lemma today_status_appends:
  assumes "primary_key s"
  shows "\<exists>new status. today_status today s = Inr (s @ new, status) \<and>
           primary_key (s @ new) \<and> dates s \<inter> dates new = {}"
proof -
  obtain s' status where t: "today_status today s = Inr (s', status)"
    using today_status_total by blast
  from today_status_cases [OF t] show ?thesis
  proof
    assume "s' = s \<and> status \<in> set s"
    with t assms have "today_status today s = Inr (s @ [], status) \<and>
           primary_key (s @ []) \<and> dates s \<inter> dates [] = {}"
      by (simp add: dates_def)
    then show ?thesis by blast
  next
    assume n: "s' = s @ [status] \<and> today \<notin> dates s \<and>
         status = \<lparr>date = today, planned_day = getNextWorkoutDay s,
                    completed = False, rescheduled = False\<rparr>"
    with t assms have "today_status today s = Inr (s @ [status], status) \<and>
           primary_key (s @ [status]) \<and> dates s \<inter> dates [status] = {}"
      by (auto simp: primary_key_append) (simp_all add: primary_key_def dates_def)
    then show ?thesis by blast
  qed
qed

text \<open>
  Claim C9. On a table that respects its primary key, the handler of \<^verbatim>\<open>/api/status\<close>
  returns the table with rows appended, no row removed or changed; the appended rows have
  dates the table did not have, and the result respects the primary key. The handler of
  \<^verbatim>\<open>/api/complete\<close> keeps the dates of the rows, each in its place, and the primary key.
\<close>

theorem primary_key_preserved:
  assumes "primary_key s"
  shows "(\<exists>new status. api_status today s = Inr (s @ new, status) \<and>
            primary_key (s @ new) \<and> dates s \<inter> dates new = {}) \<and>
         map date (api_complete today s) = map date s \<and>
         primary_key (api_complete today s)"
proof -
  let ?b = "map (rescheduled_row (getNextWorkoutDay s)) (backfill_dates today s)"
  have "primary_key (s @ ?b)"
    using assms by (rule primary_key_backfilled)
  from today_status_appends [OF this, of today] obtain new status where
    n: "today_status today (s @ ?b) = Inr ((s @ ?b) @ new, status)"
      "primary_key ((s @ ?b) @ new)" "dates (s @ ?b) \<inter> dates new = {}"
    by blast
  have "dates s \<inter> dates ?b = {}"
    using backfill_dates_bounds(2) [of _ today s] by auto
  with n have "api_status today s = Inr (s @ (?b @ new), status) \<and>
            primary_key (s @ (?b @ new)) \<and> dates s \<inter> dates (?b @ new) = {}"
    by (auto simp: api_status_eq dates_append)
  then have "\<exists>new status. api_status today s = Inr (s @ new, status) \<and>
            primary_key (s @ new) \<and> dates s \<inter> dates new = {}"
    by blast
  moreover have "primary_key (api_complete today s)"
    using assms by (simp add: primary_key_def api_complete_dates)
  ultimately show ?thesis
    by (simp add: api_complete_dates)
qed

text \<open>The theorem at a table of one row, with \<open>today\<close> two days after it.\<close>

theorem primary_key_preserved_witness:
  "primary_key [\<lparr>date = 9, planned_day = 5, completed = True, rescheduled = False\<rparr>] \<and>
   (\<exists>new status.
      api_status 11 [\<lparr>date = 9, planned_day = 5, completed = True, rescheduled = False\<rparr>]
        = Inr ([\<lparr>date = 9, planned_day = 5, completed = True, rescheduled = False\<rparr>] @ new,
               status) \<and>
      primary_key ([\<lparr>date = 9, planned_day = 5, completed = True, rescheduled = False\<rparr>] @ new)) \<and>
   primary_key
     (api_complete 11 [\<lparr>date = 9, planned_day = 5, completed = True, rescheduled = False\<rparr>])"
  using primary_key_preserved
    [of "[\<lparr>date = 9, planned_day = 5, completed = True, rescheduled = False\<rparr>]" 11]
  by (auto simp: primary_key_def)

end
